theory Spec2Isabelle
  imports Main "HOL-Library.Word"
begin

section \<open>TradingAgentRegistry: data model\<close>

text \<open>
  A shallow embedding of the Solidity contract \<open>TradingAgentRegistry\<close>
  (\<open>src/unnamed/part_001\<close>, pragma \<open>^0.8.13\<close>). Solidity value types are words of
  their width: \<open>uint256\<close> and \<open>bytes32\<close> are 256-bit words, \<open>address\<close> is a 160-bit
  word, the oracle's \<open>int64\<close> mantissa and \<open>int32\<close> exponent are 64- and 32-bit words read
  with \<open>sint\<close>. A \<open>string\<close> is a list of bytes (\<open>char\<close>), \<open>bytes\<close> a list of 8-bit words.
\<close>

type_synonym uint256 = "256 word"
type_synonym bytes32 = "256 word"
type_synonym address = "160 word"
type_synonym int64 = "64 word"
type_synonym uint64 = "64 word"
type_synonym int32 = "32 word"
type_synonym bytes = "8 word list"

text \<open>\<open>struct TradingStrategy\<close>, lines 28-38.\<close>

record TradingStrategy =
  priceFeedId :: bytes32
  triggerPrice :: uint256
  triggerAbove :: bool
  tokenIn :: address
  tokenOut :: address
  amountIn :: uint256
  isActive :: bool
  lastExecuted :: uint256
  cooldownPeriod :: uint256

text \<open>\<open>struct Agent\<close>, lines 43-50.\<close>

record Agent =
  owner :: address
  ensNode :: bytes32
  ensName :: string
  strategy :: TradingStrategy
  createdAt :: uint256
  exists :: bool

text \<open>
  \<open>PythStructs.Price\<close> of the Pyth SDK; its shape is the tuple
  \<open>(int64 price, uint64 conf, int32 expo, uint256 publishTime)\<close> of the ABI in
  \<open>src/frontend/lib/privy/pyth-contract.ts\<close>.
\<close>

record Price =
  price :: int64
  conf :: uint64
  expo :: int32
  publishTime :: uint256

text \<open>
  The ways a call can revert: the six custom errors of lines 89-94, \<open>revert("...")\<close>
  with a reason string (lines 113 and 179), the arithmetic panic of checked arithmetic
  (Solidity 0.8), and a revert that bubbles up from a call to the oracle or to ENS.
\<close>

datatype error =
    AgentNotFound
  | Unauthorized
  | InvalidStrategy
  | PriceNotUpdated
  | CooldownNotExpired
  | TriggerNotMet
  | Revert string
  | Panic
  | CalleeReverted

text \<open>The events of lines 65-87, with their arguments in declaration order.\<close>

datatype event =
    AgentCreated bytes32 address bytes32 string
  | StrategyUpdated bytes32 bytes32 uint256 bool
  | TriggerExecuted bytes32 bytes32 uint256 uint256 uint256
  | AgentDeactivated bytes32

text \<open>
  The contract's storage, lines 58-62. A Solidity mapping is total: a key never written
  reads as the zero value, so the mappings are functions and existence is the \<open>exists\<close>
  flag of the record, as in the source.
\<close>

record Registry =
  agents :: "bytes32 \<Rightarrow> Agent"
  userAgents :: "address \<Rightarrow> bytes32 list"
  ensNodeToAgentId :: "bytes32 \<Rightarrow> bytes32"
  agentCount :: uint256

text \<open>
  The chain state a call runs on: the registry's storage, the state \<open>ext\<close> of the two
  external contracts (the Pyth oracle and the ENS registry, of any type \<open>'x\<close>), and the
  events emitted so far.
\<close>

record 'x chain =
  registry :: Registry
  ext :: 'x
  logs :: "event list"

text \<open>\<open>msg.sender\<close>, \<open>msg.value\<close> and \<open>block.timestamp\<close> of a call.\<close>

record Msg =
  msg_sender :: address
  msg_value :: uint256
  block_timestamp :: uint256

text \<open>
  What the contract is deployed with (the immutables of lines 53-55) and what it calls but
  does not define: \<open>keccak256\<close>, \<open>IENS.setSubnodeRecord\<close>, and the three \<open>IPyth\<close> functions
  it uses. The external functions are parameters; each works on the external state and
  returns \<open>None\<close> when the callee reverts. The oracle's reads take the block timestamp
  (staleness is judged against it). The external contracts are assumed not to call back
  into the registry.
\<close>

record 'x Env =
  baseNode :: bytes32
  keccak256 :: "bytes \<Rightarrow> bytes32"
  ens_setSubnodeRecord ::
    "bytes32 \<Rightarrow> bytes32 \<Rightarrow> address \<Rightarrow> address \<Rightarrow> uint64 \<Rightarrow> 'x \<Rightarrow> 'x option"
  pyth_updatePriceFeeds :: "bytes list \<Rightarrow> uint256 \<Rightarrow> uint256 \<Rightarrow> 'x \<Rightarrow> 'x option"
  pyth_getPriceNoOlderThan :: "bytes32 \<Rightarrow> uint256 \<Rightarrow> uint256 \<Rightarrow> 'x \<Rightarrow> Price option"
  pyth_getPrice :: "bytes32 \<Rightarrow> uint256 \<Rightarrow> 'x \<Rightarrow> Price option"

section \<open>Checked arithmetic and byte encodings\<close>

text \<open>
  Solidity 0.8 checks \<open>+\<close>, \<open>*\<close>, \<open>**\<close> and unary minus: a result outside the type
  reverts with \<open>Panic(0x11)\<close>. Since 0.7 a literal base with a non-literal exponent is
  computed in \<open>uint256\<close>.
\<close>

definition checked_add :: "uint256 \<Rightarrow> uint256 \<Rightarrow> error + uint256" where
  "checked_add a b = (if unat a + unat b < 2 ^ 256 then Inr (a + b) else Inl Panic)"

definition checked_mul :: "uint256 \<Rightarrow> uint256 \<Rightarrow> error + uint256" where
  "checked_mul a b = (if unat a * unat b < 2 ^ 256 then Inr (a * b) else Inl Panic)"

definition checked_pow :: "uint256 \<Rightarrow> uint256 \<Rightarrow> error + uint256" where
  "checked_pow b n = (if unat b ^ unat n < 2 ^ 256 then Inr (b ^ unat n) else Inl Panic)"

text \<open>Unary minus on \<open>int256\<close>: only the least value has no negation.\<close>

definition checked_neg :: "256 word \<Rightarrow> error + 256 word" where
  "checked_neg a = (if sint a = - (2 ^ 255) then Inl Panic else Inr (- a))"

definition bindE :: "error + 'a \<Rightarrow> ('a \<Rightarrow> error + 'b) \<Rightarrow> error + 'b" where
  "bindE r f = (case r of Inl e \<Rightarrow> Inl e | Inr v \<Rightarrow> f v)"

text \<open>\<open>abi.encodePacked\<close> of a string is its bytes, of a \<open>bytes32\<close> its 32 bytes, big end first.\<close>

definition encode_string :: "string \<Rightarrow> bytes" where
  "encode_string s = map of_char s"

definition encode_bytes32 :: "bytes32 \<Rightarrow> bytes" where
  "encode_bytes32 w = map (\<lambda>i. ucast (drop_bit (8 * (31 - i)) w)) [0..<32]"

section \<open>The contract's functions\<close>

text \<open>\<open>_isValidStrategy\<close>, lines 285-290.\<close>

definition isValidStrategy :: "TradingStrategy \<Rightarrow> bool" where
  "isValidStrategy st \<longleftrightarrow>
     priceFeedId st \<noteq> 0 \<and> 0 < triggerPrice st \<and> tokenIn st \<noteq> 0 \<and> tokenOut st \<noteq> 0"

text \<open>
  The price conversion, written out twice in the source with the same text (lines 202-207
  in \<open>checkAndExecuteTrigger\<close>, lines 268-273 in \<open>checkTrigger\<close>):
  \<open>uint256(uint64(price.price))\<close> reinterprets the signed mantissa as unsigned and widens
  it; a negative exponent multiplies by \<open>10 ** uint256(-int256(expo))\<close>, any other
  divides by \<open>10 ** uint256(int256(expo))\<close>.
\<close>

definition convertPrice :: "Price \<Rightarrow> error + uint256" where
  "convertPrice p =
     (let currentPrice = (ucast (price p) :: uint256) in
      if sint (expo p) < 0 then
        bindE (checked_neg (scast (expo p))) (\<lambda>e.
        bindE (checked_pow 10 e) (\<lambda>pw.
        checked_mul currentPrice pw))
      else
        bindE (checked_pow 10 (scast (expo p))) (\<lambda>pw.
        Inr (currentPrice div pw)))"

text \<open>The trigger condition, lines 210-212 and 275-277.\<close>

definition triggerMet :: "TradingStrategy \<Rightarrow> uint256 \<Rightarrow> bool" where
  "triggerMet st currentPrice =
     (if triggerAbove st then triggerPrice st \<le> currentPrice
      else currentPrice \<le> triggerPrice st)"

text \<open>\<open>createAgent\<close>, lines 108-144. It returns the ENS node and the new state.\<close>

definition createAgent ::
  "'x Env \<Rightarrow> Msg \<Rightarrow> bytes32 \<Rightarrow> string \<Rightarrow> TradingStrategy \<Rightarrow> 'x chain
     \<Rightarrow> error + (bytes32 \<times> 'x chain)" where
  "createAgent env m agentId ensLabel st s =
     (let r = registry s in
      if exists (agents r agentId) then Inl (Revert ''Agent already exists'')
      else if \<not> isValidStrategy st then Inl InvalidStrategy
      else
        let label = keccak256 env (encode_string ensLabel);
            node = keccak256 env (encode_bytes32 (baseNode env) @ encode_bytes32 label)
        in case ens_setSubnodeRecord env (baseNode env) label (msg_sender m) 0 0 (ext s) of
             None \<Rightarrow> Inl CalleeReverted
           | Some x' \<Rightarrow>
               let agent = \<lparr> owner = msg_sender m, ensNode = node,
                             ensName = ensLabel @ ''.yourdomain.eth'',
                             strategy = st, createdAt = block_timestamp m, exists = True \<rparr>
               in bindE (checked_add (agentCount r) 1) (\<lambda>c.
                  Inr (node,
                    \<lparr> registry =
                        \<lparr> agents = (agents r)(agentId := agent),
                          userAgents = (userAgents r)
                            (msg_sender m := userAgents r (msg_sender m) @ [agentId]),
                          ensNodeToAgentId = (ensNodeToAgentId r)(node := agentId),
                          agentCount = c \<rparr>,
                      ext = x',
                      logs = logs s @ [AgentCreated agentId (msg_sender m) node (ensName agent)] \<rparr>)))"

text \<open>\<open>updateStrategy\<close>, lines 149-166: the stored strategy is assigned as a whole.\<close>

definition updateStrategy ::
  "Msg \<Rightarrow> bytes32 \<Rightarrow> TradingStrategy \<Rightarrow> 'x chain \<Rightarrow> error + 'x chain" where
  "updateStrategy m agentId newStrategy s =
     (let r = registry s; agent = agents r agentId in
      if \<not> exists agent then Inl AgentNotFound
      else if owner agent \<noteq> msg_sender m then Inl Unauthorized
      else if \<not> isValidStrategy newStrategy then Inl InvalidStrategy
      else Inr (s\<lparr> registry := r\<lparr> agents := (agents r)(agentId := agent\<lparr> strategy := newStrategy \<rparr>) \<rparr>,
                   logs := logs s @ [StrategyUpdated agentId (priceFeedId newStrategy)
                                      (triggerPrice newStrategy) (triggerAbove newStrategy)] \<rparr>))"

text \<open>
  \<open>checkAndExecuteTrigger\<close>, lines 173-229. The strategy is copied to memory before the
  oracle is called; the gates follow in the source's order.
\<close>

definition checkAndExecuteTrigger ::
  "'x Env \<Rightarrow> Msg \<Rightarrow> bytes32 \<Rightarrow> bytes list \<Rightarrow> 'x chain \<Rightarrow> error + 'x chain" where
  "checkAndExecuteTrigger env m agentId updateData s =
     (let r = registry s; agent = agents r agentId in
      if \<not> exists agent then Inl AgentNotFound
      else if \<not> isActive (strategy agent) then Inl (Revert ''Strategy not active'')
      else
        let st = strategy agent in
        case (if 0 < length updateData
              then pyth_updatePriceFeeds env updateData (msg_value m) (block_timestamp m) (ext s)
              else Some (ext s)) of
          None \<Rightarrow> Inl CalleeReverted
        | Some x' \<Rightarrow>
           (case pyth_getPriceNoOlderThan env (priceFeedId st) 300 (block_timestamp m) x' of
              None \<Rightarrow> Inl CalleeReverted
            | Some p \<Rightarrow>
                if publishTime p = 0 then Inl PriceNotUpdated
                else
                  bindE (checked_add (lastExecuted st) (cooldownPeriod st)) (\<lambda>ready.
                  if block_timestamp m < ready then Inl CooldownNotExpired
                  else
                    bindE (convertPrice p) (\<lambda>currentPrice.
                    if \<not> triggerMet st currentPrice then Inl TriggerNotMet
                    else
                      Inr \<lparr> registry = r\<lparr> agents := (agents r)
                              (agentId := agent\<lparr> strategy :=
                                 (strategy agent)\<lparr> lastExecuted := block_timestamp m \<rparr> \<rparr>) \<rparr>,
                            ext = x',
                            logs = logs s @ [TriggerExecuted agentId (priceFeedId st)
                                     currentPrice (triggerPrice st) (block_timestamp m)] \<rparr>))))"

text \<open>\<open>deactivateAgent\<close>, lines 234-241.\<close>

definition deactivateAgent :: "Msg \<Rightarrow> bytes32 \<Rightarrow> 'x chain \<Rightarrow> error + 'x chain" where
  "deactivateAgent m agentId s =
     (let r = registry s; agent = agents r agentId in
      if \<not> exists agent then Inl AgentNotFound
      else if owner agent \<noteq> msg_sender m then Inl Unauthorized
      else Inr (s\<lparr> registry := r\<lparr> agents := (agents r)
                     (agentId := agent\<lparr> strategy := (strategy agent)\<lparr> isActive := False \<rparr> \<rparr>) \<rparr>,
                   logs := logs s @ [AgentDeactivated agentId] \<rparr>))"

text \<open>The view functions \<open>getAgent\<close> (246-249), \<open>getUserAgents\<close> (254-256) and
  \<open>checkTrigger\<close> (261-280): they return a value and no state.\<close>

definition getAgent :: "bytes32 \<Rightarrow> 'x chain \<Rightarrow> error + Agent" where
  "getAgent agentId s =
     (if \<not> exists (agents (registry s) agentId) then Inl AgentNotFound
      else Inr (agents (registry s) agentId))"

definition getUserAgents :: "address \<Rightarrow> 'x chain \<Rightarrow> bytes32 list" where
  "getUserAgents user s = userAgents (registry s) user"

definition checkTrigger ::
  "'x Env \<Rightarrow> Msg \<Rightarrow> bytes32 \<Rightarrow> 'x chain \<Rightarrow> error + (bool \<times> uint256)" where
  "checkTrigger env m agentId s =
     (let agent = agents (registry s) agentId in
      if \<not> exists agent then Inl AgentNotFound
      else
        case pyth_getPrice env (priceFeedId (strategy agent)) (block_timestamp m) (ext s) of
          None \<Rightarrow> Inl CalleeReverted
        | Some p \<Rightarrow>
            bindE (convertPrice p) (\<lambda>priceValue.
            Inr (triggerMet (strategy agent) priceValue, priceValue)))"

section \<open>Transactions\<close>

text \<open>
  The four state-changing entry points as calls. A call that reverts leaves the whole
  state as it was (the EVM rolls the transaction back); \<open>step\<close> is one transaction and
  \<open>run\<close> a sequence of them.
\<close>

datatype call =
    CreateAgent bytes32 string TradingStrategy
  | UpdateStrategy bytes32 TradingStrategy
  | CheckAndExecuteTrigger bytes32 "bytes list"
  | DeactivateAgent bytes32

fun apply_call :: "'x Env \<Rightarrow> Msg \<Rightarrow> call \<Rightarrow> 'x chain \<Rightarrow> error + 'x chain" where
  "apply_call env m (CreateAgent a l st) s = map_sum id snd (createAgent env m a l st s)"
| "apply_call env m (UpdateStrategy a st) s = updateStrategy m a st s"
| "apply_call env m (CheckAndExecuteTrigger a ud) s = checkAndExecuteTrigger env m a ud s"
| "apply_call env m (DeactivateAgent a) s = deactivateAgent m a s"

definition step :: "'x Env \<Rightarrow> Msg \<Rightarrow> call \<Rightarrow> 'x chain \<Rightarrow> 'x chain" where
  "step env m c s = (case apply_call env m c s of Inl e \<Rightarrow> s | Inr s' \<Rightarrow> s')"

fun run :: "'x Env \<Rightarrow> (Msg \<times> call) list \<Rightarrow> 'x chain \<Rightarrow> 'x chain" where
  "run env [] s = s"
| "run env ((m, c) # cs) s = run env cs (step env m c s)"

section \<open>Fixtures for concrete evaluation\<close>

text \<open>
  A small concrete world on which the theorems below are instantiated: an ENS registry
  that accepts every subname, an oracle with one fixed reading per call (mantissa
  \<open>300000000001\<close>, exponent \<open>0\<close>), a stand-in for \<open>keccak256\<close>, and a registry holding
  one agent, id \<open>1\<close>, owned by address \<open>10\<close>, last executed at time \<open>1000\<close>.
\<close>

definition demo_price :: Price where
  "demo_price = \<lparr> price = 300000000001, conf = 0, expo = 0, publishTime = 1 \<rparr>"

definition demo_env :: "unit Env" where
  "demo_env =
     \<lparr> baseNode = 0,
       keccak256 = (\<lambda>bs. of_nat (length bs) + 1),
       ens_setSubnodeRecord = (\<lambda>node label ownr resolver ttl x. Some x),
       pyth_updatePriceFeeds = (\<lambda>ud v t x. Some x),
       pyth_getPriceNoOlderThan = (\<lambda>feed age t x. Some demo_price),
       pyth_getPrice = (\<lambda>feed t x. Some demo_price) \<rparr>"

definition demo_strategy :: TradingStrategy where
  "demo_strategy =
     \<lparr> priceFeedId = 7, triggerPrice = 300000000000, triggerAbove = True,
       tokenIn = 1, tokenOut = 2, amountIn = 0, isActive = True,
       lastExecuted = 1000, cooldownPeriod = 3600 \<rparr>"

definition no_strategy :: TradingStrategy where
  "no_strategy =
     \<lparr> priceFeedId = 0, triggerPrice = 0, triggerAbove = False,
       tokenIn = 0, tokenOut = 0, amountIn = 0, isActive = False,
       lastExecuted = 0, cooldownPeriod = 0 \<rparr>"

definition no_agent :: Agent where
  "no_agent =
     \<lparr> owner = 0, ensNode = 0, ensName = [], strategy = no_strategy,
       createdAt = 0, exists = False \<rparr>"

definition demo_agent :: Agent where
  "demo_agent =
     \<lparr> owner = 10, ensNode = 5, ensName = ''bot.yourdomain.eth'', strategy = demo_strategy,
       createdAt = 900, exists = True \<rparr>"

definition demo_chain :: "unit chain" where
  "demo_chain =
     \<lparr> registry = \<lparr> agents = (\<lambda>a. no_agent)(1 := demo_agent),
                     userAgents = (\<lambda>u. [])(10 := [1]),
                     ensNodeToAgentId = (\<lambda>n. 0)(5 := 1), agentCount = 1 \<rparr>,
       ext = (), logs = [] \<rparr>"

definition msg_at :: "address \<Rightarrow> uint256 \<Rightarrow> Msg" where
  "msg_at who t = \<lparr> msg_sender = who, msg_value = 0, block_timestamp = t \<rparr>"

lemmas demo_defs =
  demo_price_def demo_env_def demo_strategy_def no_strategy_def no_agent_def
  demo_agent_def demo_chain_def msg_at_def

section \<open>Word arithmetic behind the price conversion\<close>

lemma sint_scast_expo: "sint (scast (e :: 32 word) :: 256 word) = sint e"
  by (simp add: sint_up_scast is_up)

lemma sint_expo_bounds: "- (2 ^ 31) \<le> sint (e :: 32 word) \<and> sint e < 2 ^ 31"
  using sint_ge [of e] sint_lt [of e] by simp

lemma checked_neg_expo: "checked_neg (scast (e :: 32 word)) = Inr (- scast e)"
  using sint_expo_bounds [of e] by (simp add: checked_neg_def sint_scast_expo)

lemma unat_word_of_int_small:
  assumes "0 \<le> k" "k < 2 ^ 256"
  shows "unat (word_of_int k :: 256 word) = nat k"
proof -
  have "uint (word_of_int k :: 256 word) = k"
    using assms by (simp add: uint_word_of_int take_bit_eq_mod)
  then show ?thesis by (simp only: unat_eq_nat_uint)
qed

lemma unat_neg_scast_expo:
  assumes "sint (e :: 32 word) < 0"
  shows "unat (- (scast e) :: 256 word) = nat (- sint e)"
proof -
  have eq: "(- (scast e) :: 256 word) = word_of_int (- sint e)"
    by (simp only: scast_eq [of e] of_int_minus)
  have "- sint e < 2 ^ 256"
    using sint_expo_bounds [of e] by simp
  then show ?thesis
    using assms unat_word_of_int_small [of "- sint e"] by (simp only: eq) 
qed


lemma unat_scast_expo:
  assumes "0 \<le> sint (e :: 32 word)"
  shows "unat (scast e :: 256 word) = nat (sint e)"
proof -
  have "sint e < 2 ^ 256"
    using sint_expo_bounds [of e] by simp
  then show ?thesis
    using assms unat_word_of_int_small [of "sint e"] by (simp only: scast_eq [of e])
qed

lemma unat_ucast_mantissa: "unat (ucast (m :: 64 word) :: 256 word) = unat m"
proof -
  have "uint (ucast m :: 256 word) = uint m"
    by (rule uint_up_ucast) (simp add: is_up)
  then show ?thesis by (simp only: unat_eq_nat_uint)
qed

lemma unat_pow_ten:
  assumes "(10::nat) ^ k < 2 ^ 256"
  shows "unat ((10 :: 256 word) ^ k) = 10 ^ k"
proof -
  have "unat (word_of_nat (10 ^ k) :: 256 word) = (10 ^ k) mod 2 ^ LENGTH(256)"
    by (rule unat_of_nat)
  also have "\<dots> = 10 ^ k"
    using assms by (intro mod_less) (simp only: len_bit0 len_num1, simp)
  finally have "unat (word_of_nat (10 ^ k) :: 256 word) = 10 ^ k" .
  moreover have "(word_of_nat (10 ^ k) :: 256 word) = 10 ^ k"
    by (simp only: of_nat_power of_nat_numeral)
  ultimately show ?thesis by (simp only:)
qed

lemma checked_pow_ten:
  "checked_pow 10 n = (if (10::nat) ^ unat n < 2 ^ 256 then Inr (10 ^ unat n) else Inl Panic)"
  by (simp add: checked_pow_def)

lemma checked_mul_nat:
  "checked_mul a b =
     (if unat a * unat b < 2 ^ 256 then Inr (word_of_nat (unat a * unat b)) else Inl Panic)"
  unfolding checked_mul_def word_arith_nat_mult [symmetric] ..



lemma sint_mantissa_uint:
  "sint (m :: 64 word) = (if uint m < 2 ^ 63 then uint m else uint m - 2 ^ 64)"
proof -
  have s: "sint m = (uint m + 2 ^ 63) mod 2 ^ 64 - 2 ^ 63"
    using int_word_sint [of "uint m", where 'a = 64] by simp
  have lo: "0 \<le> uint m" by simp
  have hi: "uint m < 2 ^ 64" using uint_lt2p [of m] by simp
  show ?thesis
  proof (cases "uint m < 2 ^ 63")
    case True
    then have "(uint m + 2 ^ 63) mod 2 ^ 64 = uint m + 2 ^ 63"
      using lo by (intro mod_pos_pos_trivial) simp_all
    with True s show ?thesis by simp
  next
    case False
    have "(uint m + 2 ^ 63) mod 2 ^ 64 = ((uint m - 2 ^ 63) + 2 ^ 64) mod 2 ^ 64"
      by (simp add: algebra_simps)
    also have "\<dots> = (uint m - 2 ^ 63) mod 2 ^ 64"
      by (rule mod_add_self2)
    also have "\<dots> = uint m - 2 ^ 63"
      using False hi by (intro mod_pos_pos_trivial) simp_all
    finally show ?thesis using False s by simp
  qed
qed

lemma unat_mantissa_sint:
  "unat (m :: 64 word) = (if 0 \<le> sint m then nat (sint m) else nat (sint m + 2 ^ 64))"
proof -
  have hi: "uint m < 2 ^ 64" using uint_lt2p [of m] by simp
  have lo: "0 \<le> uint m" by simp
  have "unat m = nat (uint m)" by (simp only: unat_eq_nat_uint)
  then show ?thesis
    using hi lo by (simp add: sint_mantissa_uint)
qed

lemma convertPrice_unsigned:
  "convertPrice p =
     (let u = unat (price p); e = sint (expo p) in
      if e < 0 then
        (if (10::nat) ^ nat (- e) < 2 ^ 256 \<and> u * 10 ^ nat (- e) < 2 ^ 256
         then Inr (word_of_nat (u * 10 ^ nat (- e))) else Inl Panic)
      else
        (if (10::nat) ^ nat e < 2 ^ 256
         then Inr (word_of_nat (u div 10 ^ nat e)) else Inl Panic))"
proof (cases "sint (expo p) < 0")
  case True
  define k where "k = nat (- sint (expo p))"
  have un: "unat (- (scast (expo p)) :: 256 word) = k"
    using True by (simp only: k_def unat_neg_scast_expo)
  show ?thesis
  proof (cases "(10::nat) ^ k < 2 ^ 256")
    case small: True
    have "convertPrice p = checked_mul (ucast (price p)) (10 ^ k)"
      using True small
      by (simp only: convertPrice_def Let_def checked_neg_expo bindE_def sum.case
          checked_pow_ten un if_True)
    then show ?thesis
      using True small
      by (simp only: checked_mul_nat unat_ucast_mantissa unat_pow_ten [OF small] Let_def
          k_def [symmetric] if_True simp_thms)
  next
    case large: False
    have "convertPrice p = Inl Panic"
      using True large
      by (simp only: convertPrice_def Let_def checked_neg_expo bindE_def sum.case
          checked_pow_ten un if_True if_False)
    then show ?thesis
      using True large by (simp only: Let_def k_def [symmetric] if_True if_False simp_thms)
  qed
next
  case False
  define k where "k = nat (sint (expo p))"
  have un: "unat (scast (expo p) :: 256 word) = k"
    using False by (simp only: k_def unat_scast_expo not_less)
  show ?thesis
  proof (cases "(10::nat) ^ k < 2 ^ 256")
    case small: True
    have "convertPrice p = Inr (ucast (price p) div 10 ^ k)"
      using False small
      by (simp only: convertPrice_def Let_def bindE_def sum.case checked_pow_ten un
          if_True if_False)
    also have "(ucast (price p) :: 256 word) div 10 ^ k
        = word_of_nat (unat (price p) div 10 ^ k)"
      by (simp only: word_arith_nat_div unat_ucast_mantissa unat_pow_ten [OF small])
    finally show ?thesis
      using False small by (simp only: Let_def k_def [symmetric] if_True if_False)
  next
    case large: False
    have "convertPrice p = Inl Panic"
      using False large
      by (simp only: convertPrice_def Let_def bindE_def sum.case checked_pow_ten un
          if_True if_False)
    then show ?thesis
      using False large by (simp only: Let_def k_def [symmetric] if_True if_False)
  qed
qed

section \<open>Price normalization\<close>

text \<open>
  C3. The spec's two examples of the normalizer, evaluated on the code: mantissa
  \<open>12345678\<close> with exponent \<open>-8\<close> is multiplied by \<open>10^8\<close> and comes out as
  \<open>1234567800000000\<close>, not as \<open>12345678\<close>; mantissa \<open>5\<close> with exponent \<open>2\<close> is divided by
  \<open>100\<close> and comes out as \<open>0\<close>.
\<close>

theorem convertPrice_examples:
  "convertPrice \<lparr> price = 12345678, conf = 0, expo = - 8, publishTime = 1 \<rparr>
     = Inr 1234567800000000
   \<and> convertPrice \<lparr> price = 5, conf = 0, expo = 2, publishTime = 1 \<rparr> = Inr 0"
  by (simp add: convertPrice_def checked_neg_def checked_pow_def checked_mul_def bindE_def)

text \<open>
  C4, as stated, fails in two ways. A negative mantissa is not replaced by its absolute
  value: \<open>-1\<close> with exponent \<open>0\<close> gives \<open>2^64 - 1\<close>, where the absolute value divided by
  \<open>10^0\<close> is \<open>1\<close>. And the result is not always returned: with exponent \<open>-78\<close> the power
  \<open>10^78\<close> does not fit 256 bits and the call reverts.
\<close>

theorem convertPrice_abs_counterexample:
  "convertPrice \<lparr> price = - 1, conf = 0, expo = 0, publishTime = 1 \<rparr>
     = Inr 18446744073709551615
   \<and> nat \<bar>sint (- 1 :: int64)\<bar> div 10 ^ nat (sint (0 :: int32)) = 1
   \<and> convertPrice \<lparr> price = 1, conf = 0, expo = - 78, publishTime = 1 \<rparr> = Inl Panic"
proof -
  have "(ucast (- 1 :: int64) :: uint256) = 18446744073709551615"
    by code_simp
  then show ?thesis
    by (simp add: convertPrice_def checked_neg_def checked_pow_def checked_mul_def bindE_def)
qed

text \<open>
  C4, amended. Let \<open>u\<close> be the mantissa read as an unsigned 64-bit number: the mantissa
  itself (its absolute value) when it is not negative, the mantissa plus \<open>2^64\<close> when it
  is. For a negative exponent \<open>e\<close> the conversion returns \<open>u * 10^(-e)\<close> when the power and
  the product fit 256 bits and reverts with the arithmetic panic otherwise; for any other
  exponent it returns \<open>u div 10^e\<close>, rounded towards zero, when \<open>10^e\<close> fits 256 bits
  and reverts otherwise.
\<close>

theorem convertPrice_formula:
  "convertPrice p =
     (let u = (if 0 \<le> sint (price p) then nat \<bar>sint (price p)\<bar>
               else nat (sint (price p) + 2 ^ 64));
          e = sint (expo p) in
      if e < 0 then
        (if (10::nat) ^ nat (- e) < 2 ^ 256 \<and> u * 10 ^ nat (- e) < 2 ^ 256
         then Inr (word_of_nat (u * 10 ^ nat (- e))) else Inl Panic)
      else
        (if (10::nat) ^ nat e < 2 ^ 256
         then Inr (word_of_nat (u div 10 ^ nat e)) else Inl Panic))"
proof -
  have "unat (price p) = (if 0 \<le> sint (price p) then nat \<bar>sint (price p)\<bar>
                          else nat (sint (price p) + 2 ^ 64))"
    using unat_mantissa_sint [of "price p"] by simp
  then show ?thesis
    using convertPrice_unsigned [of p] by (simp only:)
qed

theorem convertPrice_formula_witness:
  "convertPrice \<lparr> price = 12345678, conf = 0, expo = - 8, publishTime = 1 \<rparr>
     = Inr (word_of_nat (12345678 * 10 ^ 8))
   \<and> convertPrice \<lparr> price = 1999, conf = 0, expo = 3, publishTime = 1 \<rparr>
     = Inr (word_of_nat (1999 div 10 ^ 3))"
  using convertPrice_formula [of "\<lparr> price = 12345678, conf = 0, expo = - 8, publishTime = 1 \<rparr>"]
    convertPrice_formula [of "\<lparr> price = 1999, conf = 0, expo = 3, publishTime = 1 \<rparr>"]
  by simp

section \<open>How each entry point changes the registry\<close>

lemma bindE_Inr_iff: "bindE r f = Inr y \<longleftrightarrow> (\<exists>v. r = Inr v \<and> f v = Inr y)"
  by (cases r) (simp_all add: bindE_def)

lemma checked_add_Inr_iff:
  "checked_add x y = Inr z \<longleftrightarrow> unat x + unat y < 2 ^ 256 \<and> z = x + y"
  by (auto simp add: checked_add_def)

lemma unat_checked_sum:
  assumes "unat (x :: uint256) + unat y < 2 ^ 256"
  shows "unat (x + y) = unat x + unat y"
  using assms unat_add_lem [of x y] by simp

lemma word_le_unat: "(x :: uint256) \<le> y \<longleftrightarrow> unat x \<le> unat y"
  by (rule word_le_nat_alt)

lemma word_less_unat: "(x :: uint256) < y \<longleftrightarrow> unat x < unat y"
  by (rule word_less_nat_alt)

lemma checkAndExecuteTrigger_gates:
  assumes "exists (agents (registry s) a)"
    and "isActive (strategy (agents (registry s) a))"
    and "(if 0 < length ud
          then pyth_updatePriceFeeds env ud (msg_value m) (block_timestamp m) (ext s)
          else Some (ext s)) = Some x'"
    and "pyth_getPriceNoOlderThan env (priceFeedId (strategy (agents (registry s) a))) 300
           (block_timestamp m) x' = Some p"
    and "publishTime p \<noteq> 0"
  shows "checkAndExecuteTrigger env m a ud s =
     bindE (checked_add (lastExecuted (strategy (agents (registry s) a)))
              (cooldownPeriod (strategy (agents (registry s) a)))) (\<lambda>ready.
       if block_timestamp m < ready then Inl CooldownNotExpired
       else bindE (convertPrice p) (\<lambda>currentPrice.
         if \<not> triggerMet (strategy (agents (registry s) a)) currentPrice then Inl TriggerNotMet
         else Inr \<lparr> registry = (registry s)\<lparr> agents := (agents (registry s))
                      (a := (agents (registry s) a)\<lparr> strategy :=
                         (strategy (agents (registry s) a))\<lparr> lastExecuted := block_timestamp m \<rparr> \<rparr>) \<rparr>,
                    ext = x',
                    logs = logs s @ [TriggerExecuted a (priceFeedId (strategy (agents (registry s) a)))
                             currentPrice (triggerPrice (strategy (agents (registry s) a)))
                             (block_timestamp m)] \<rparr>))"
  using assms by (simp add: checkAndExecuteTrigger_def Let_def)

lemma checkAndExecuteTrigger_registry:
  assumes "checkAndExecuteTrigger env m a ud s = Inr s'"
  shows "registry s' = (registry s)\<lparr> agents := (agents (registry s))
           (a := (agents (registry s) a)\<lparr> strategy :=
              (strategy (agents (registry s) a))\<lparr> lastExecuted := block_timestamp m \<rparr> \<rparr>) \<rparr>"
  using assms
  by (auto simp add: checkAndExecuteTrigger_def Let_def bindE_Inr_iff
      split: if_splits option.splits)

lemma checkAndExecuteTrigger_cooldown:
  assumes "checkAndExecuteTrigger env m a ud s = Inr s'"
  shows "unat (lastExecuted (strategy (agents (registry s) a)))
           + unat (cooldownPeriod (strategy (agents (registry s) a)))
         \<le> unat (block_timestamp m)"
  using assms
  by (auto simp add: checkAndExecuteTrigger_def Let_def bindE_Inr_iff checked_add_Inr_iff
      word_less_unat unat_checked_sum split: if_splits option.splits)

lemma checkAndExecuteTrigger_inactive:
  assumes "exists (agents (registry s) a)" and "\<not> isActive (strategy (agents (registry s) a))"
  shows "checkAndExecuteTrigger env m a ud s = Inl (Revert ''Strategy not active'')"
  using assms by (simp add: checkAndExecuteTrigger_def Let_def)

lemma createAgent_registry:
  assumes "createAgent env m a l st s = Inr (node, s')"
  shows "\<not> exists (agents (registry s) a)
       \<and> agents (registry s') = (agents (registry s))
            (a := \<lparr> owner = msg_sender m, ensNode = node, ensName = l @ ''.yourdomain.eth'',
                    strategy = st, createdAt = block_timestamp m, exists = True \<rparr>)"
  using assms
  by (auto simp add: createAgent_def Let_def bindE_Inr_iff split: if_splits option.splits)

lemma updateStrategy_registry:
  assumes "updateStrategy m a st s = Inr s'"
  shows "msg_sender m = owner (agents (registry s) a)
       \<and> agents (registry s') = (agents (registry s))
            (a := (agents (registry s) a)\<lparr> strategy := st \<rparr>)"
  using assms by (auto simp add: updateStrategy_def Let_def split: if_splits)

lemma deactivateAgent_registry:
  assumes "deactivateAgent m a s = Inr s'"
  shows "exists (agents (registry s) a)
       \<and> agents (registry s') = (agents (registry s))
            (a := (agents (registry s) a)\<lparr> strategy :=
               (strategy (agents (registry s) a))\<lparr> isActive := False \<rparr> \<rparr>)"
  using assms by (auto simp add: deactivateAgent_def Let_def split: if_splits)

lemma step_keeps_inactive:
  assumes ex: "exists (agents (registry s) a)"
    and off: "\<not> isActive (strategy (agents (registry s) a))"
    and upd: "\<forall>st. c = UpdateStrategy a st \<longrightarrow> \<not> isActive st"
  shows "exists (agents (registry (step env m c s)) a)
       \<and> \<not> isActive (strategy (agents (registry (step env m c s)) a))"
proof (cases "apply_call env m c s")
  case (Inl e)
  then show ?thesis using ex off by (simp add: step_def)
next
  case (Inr s')
  then have stp: "step env m c s = s'" by (simp add: step_def)
  show ?thesis
  proof (cases c)
    case (CreateAgent a' l st)
    from Inr obtain node where cr: "createAgent env m a' l st s = Inr (node, s')"
      by (cases "createAgent env m a' l st s") (auto simp add: CreateAgent)
    from createAgent_registry [OF cr] ex have "a' \<noteq> a" by auto
    with createAgent_registry [OF cr] ex off show ?thesis by (simp add: stp)
  next
    case (UpdateStrategy a' st)
    from Inr have u: "updateStrategy m a' st s = Inr s'" by (simp add: UpdateStrategy)
    show ?thesis
    proof (cases "a' = a")
      case True
      with upd UpdateStrategy have "\<not> isActive st" by simp
      with updateStrategy_registry [OF u] ex True show ?thesis by (simp add: stp)
    next
      case False
      with updateStrategy_registry [OF u] ex off show ?thesis by (simp add: stp)
    qed
  next
    case (CheckAndExecuteTrigger a' ud)
    from Inr have t: "checkAndExecuteTrigger env m a' ud s = Inr s'"
      by (simp add: CheckAndExecuteTrigger)
    from checkAndExecuteTrigger_registry [OF t] ex off show ?thesis
      by (cases "a' = a") (simp_all add: stp)
  next
    case (DeactivateAgent a')
    from Inr have d: "deactivateAgent m a' s = Inr s'" by (simp add: DeactivateAgent)
    from deactivateAgent_registry [OF d] ex off show ?thesis
      by (cases "a' = a") (simp_all add: stp)
  qed
qed

lemma run_keeps_inactive:
  assumes "exists (agents (registry s) a)"
    and "\<not> isActive (strategy (agents (registry s) a))"
    and "\<forall>(m', c) \<in> set cs. \<forall>st. c = UpdateStrategy a st \<longrightarrow> \<not> isActive st"
  shows "exists (agents (registry (run env cs s)) a)
       \<and> \<not> isActive (strategy (agents (registry (run env cs s)) a))"
  using assms
proof (induction cs arbitrary: s)
  case Nil
  then show ?case by simp
next
  case (Cons mc cs)
  obtain m' c where mc: "mc = (m', c)" by (cases mc)
  from Cons.prems(3) have here: "\<forall>st. c = UpdateStrategy a st \<longrightarrow> \<not> isActive st"
    and rest: "\<forall>(m', c) \<in> set cs. \<forall>st. c = UpdateStrategy a st \<longrightarrow> \<not> isActive st"
    by (simp_all add: mc)
  from step_keeps_inactive [OF Cons.prems(1) Cons.prems(2) here, of env m']
  have "exists (agents (registry (step env m' c s)) a)"
    and "\<not> isActive (strategy (agents (registry (step env m' c s)) a))"
    by simp_all
  from Cons.IH [OF this rest] show ?case by (simp add: mc)
qed

text \<open>The fixtures, evaluated.\<close>

lemma convertPrice_demo: "convertPrice demo_price = Inr 300000000001"
  by (simp add: convertPrice_def demo_price_def checked_pow_def bindE_def)

lemma demo_price_fresh: "publishTime demo_price = 1"
  by (simp add: demo_price_def)

lemma msg_at_sel:
  "msg_sender (msg_at w t) = w" "msg_value (msg_at w t) = 0" "block_timestamp (msg_at w t) = t"
  by (simp_all add: msg_at_def)

lemma demo_agent_1: "agents (registry demo_chain) 1 = demo_agent"
  by (simp add: demo_chain_def)

lemma demo_execute:
  "\<exists>s'. checkAndExecuteTrigger demo_env (msg_at 11 4600) 1 [] demo_chain = Inr s'"
  by (simp add: checkAndExecuteTrigger_def Let_def demo_agent_1 demo_agent_def
      demo_strategy_def demo_env_def msg_at_sel convertPrice_demo demo_price_fresh
      checked_add_def bindE_def triggerMet_def)

section \<open>Last execution time\<close>

text \<open>
  C1, as stated, fails: \<open>updateStrategy\<close> assigns the stored strategy as a whole, and
  \<open>lastExecuted\<close> is one of its fields. The owner of the fixture agent, last executed at
  \<open>1000\<close>, replaces the strategy by one whose \<open>lastExecuted\<close> is \<open>0\<close>, and the stored value
  goes back to \<open>0\<close>.
\<close>

theorem lastExecuted_changes_counterexample:
  "lastExecuted (strategy (agents (registry demo_chain) 1)) = 1000
   \<and> lastExecuted (strategy (agents (registry
        (step demo_env (msg_at 10 5000)
           (UpdateStrategy 1 (demo_strategy\<lparr> lastExecuted := 0 \<rparr>)) demo_chain)) 1)) = 0"
  by (simp add: step_def updateStrategy_def Let_def isValidStrategy_def demo_defs)

text \<open>
  C1, amended. For an existing agent, one transaction leaves \<open>lastExecuted\<close> as it was,
  unless it is a successful \<open>checkAndExecuteTrigger\<close> for that agent, which sets it to the
  block timestamp, never below the old value; or a successful \<open>updateStrategy\<close> for that
  agent by its owner, which sets it to the \<open>lastExecuted\<close> field of the supplied strategy.
\<close>

theorem lastExecuted_changes:
  assumes ex: "exists (agents (registry s) a)"
  shows "lastExecuted (strategy (agents (registry (step env m c s)) a))
           = lastExecuted (strategy (agents (registry s) a))
       \<or> (\<exists>ud. c = CheckAndExecuteTrigger a ud
             \<and> lastExecuted (strategy (agents (registry (step env m c s)) a)) = block_timestamp m
             \<and> lastExecuted (strategy (agents (registry s) a)) \<le> block_timestamp m)
       \<or> (\<exists>st. c = UpdateStrategy a st
             \<and> msg_sender m = owner (agents (registry s) a)
             \<and> lastExecuted (strategy (agents (registry (step env m c s)) a)) = lastExecuted st)"
proof (cases c)
  case (CreateAgent a' l st)
  show ?thesis
  proof (cases "createAgent env m a' l st s")
    case (Inl e)
    then show ?thesis by (simp add: CreateAgent step_def)
  next
    case (Inr r)
    obtain node s' where r: "r = (node, s')" by (cases r)
    have stp: "step env m c s = s'"
      by (simp add: CreateAgent step_def Inr r)
    from createAgent_registry [OF Inr [unfolded r]] ex have "a' \<noteq> a" by auto
    with createAgent_registry [OF Inr [unfolded r]] stp show ?thesis
      by (simp add: CreateAgent)
  qed
next
  case (UpdateStrategy a' st)
  show ?thesis
  proof (cases "updateStrategy m a' st s")
    case (Inl e)
    then show ?thesis by (simp add: UpdateStrategy step_def)
  next
    case (Inr s')
    have stp: "step env m c s = s'"
      by (simp add: UpdateStrategy step_def Inr)
    from updateStrategy_registry [OF Inr] stp show ?thesis
      by (cases "a' = a") (simp_all add: UpdateStrategy)
  qed
next
  case (CheckAndExecuteTrigger a' ud)
  show ?thesis
  proof (cases "checkAndExecuteTrigger env m a' ud s")
    case (Inl e)
    then show ?thesis by (simp add: CheckAndExecuteTrigger step_def)
  next
    case (Inr s')
    have "unat (lastExecuted (strategy (agents (registry s) a'))) \<le> unat (block_timestamp m)"
      using checkAndExecuteTrigger_cooldown [OF Inr] by simp
    then have "lastExecuted (strategy (agents (registry s) a')) \<le> block_timestamp m"
      by (simp add: word_le_unat)
    moreover have stp: "step env m c s = s'"
      by (simp add: CheckAndExecuteTrigger step_def Inr)
    ultimately show ?thesis
      using checkAndExecuteTrigger_registry [OF Inr]
      by (cases "a' = a") (simp_all add: CheckAndExecuteTrigger)
  qed
next
  case (DeactivateAgent a')
  show ?thesis
  proof (cases "deactivateAgent m a' s")
    case (Inl e)
    then show ?thesis by (simp add: DeactivateAgent step_def)
  next
    case (Inr s')
    have stp: "step env m c s = s'"
      by (simp add: DeactivateAgent step_def Inr)
    from deactivateAgent_registry [OF Inr] stp show ?thesis
      by (cases "a' = a") (simp_all add: DeactivateAgent)
  qed
qed

theorem lastExecuted_changes_witness:
  "exists (agents (registry demo_chain) 1)
   \<and> lastExecuted (strategy (agents (registry
        (step demo_env (msg_at 11 4600) (CheckAndExecuteTrigger 1 []) demo_chain)) 1)) = 4600
   \<and> lastExecuted (strategy (agents (registry demo_chain) 1)) \<le> 4600"
proof -
  have e: "exists (agents (registry demo_chain) 1)"
    by (simp add: demo_agent_1 demo_agent_def)
  have old: "lastExecuted (strategy (agents (registry demo_chain) 1)) = 1000"
    by (simp add: demo_agent_1 demo_agent_def demo_strategy_def)
  from demo_execute obtain s'
    where r: "checkAndExecuteTrigger demo_env (msg_at 11 4600) 1 [] demo_chain = Inr s'" ..
  have stp: "step demo_env (msg_at 11 4600) (CheckAndExecuteTrigger 1 []) demo_chain = s'"
    by (simp add: step_def r)
  from checkAndExecuteTrigger_registry [OF r]
  have moved: "lastExecuted (strategy (agents (registry s') 1)) \<noteq> 1000"
    by (simp add: msg_at_sel)
  from lastExecuted_changes [OF e, of demo_env "msg_at 11 4600" "CheckAndExecuteTrigger 1 []"]
  have "lastExecuted (strategy (agents (registry s') 1)) = 4600"
    using moved by (simp add: stp old msg_at_sel)
  then show ?thesis using e old by (simp add: stp)
qed

section \<open>Creation\<close>

text \<open>
  C2, as stated, fails: \<open>createAgent\<close> stores the supplied strategy verbatim, and validation
  does not look at \<open>isActive\<close> or \<open>lastExecuted\<close>. A valid strategy supplied with
  \<open>isActive = false\<close> and \<open>lastExecuted = 77\<close> is read back with those values.
\<close>

theorem create_then_get_counterexample:
  "isValidStrategy (demo_strategy\<lparr> isActive := False, lastExecuted := 77 \<rparr>)
   \<and> map_sum id (isActive \<circ> strategy)
        (getAgent 2 (step demo_env (msg_at 11 5000)
           (CreateAgent 2 ''bot2'' (demo_strategy\<lparr> isActive := False, lastExecuted := 77 \<rparr>))
           demo_chain)) = Inr False
   \<and> map_sum id (lastExecuted \<circ> strategy)
        (getAgent 2 (step demo_env (msg_at 11 5000)
           (CreateAgent 2 ''bot2'' (demo_strategy\<lparr> isActive := False, lastExecuted := 77 \<rparr>))
           demo_chain)) = Inr 77"
  by (simp add: step_def createAgent_def getAgent_def Let_def isValidStrategy_def
      checked_add_def bindE_def demo_defs)

text \<open>
  C2, amended. For a valid strategy and an unused agent id, when the ENS call does not
  revert and the agent count has room, \<open>createAgent\<close> succeeds and \<open>getAgent\<close> on the new
  state returns the caller as owner, the ENS node that \<open>createAgent\<close> returned, the label
  followed by \<open>.yourdomain.eth\<close>, the block timestamp, \<open>exists = true\<close>, and the supplied
  strategy verbatim, its \<open>isActive\<close> and \<open>lastExecuted\<close> included as supplied.
\<close>

theorem create_then_get:
  assumes valid: "isValidStrategy st"
    and fresh: "\<not> exists (agents (registry s) a)"
    and ens: "ens_setSubnodeRecord env (baseNode env) (keccak256 env (encode_string l))
                (msg_sender m) 0 0 (ext s) = Some x'"
    and room: "unat (agentCount (registry s)) + 1 < 2 ^ 256"
  shows "\<exists>node s'. createAgent env m a l st s = Inr (node, s')
           \<and> getAgent a s' = Inr \<lparr> owner = msg_sender m, ensNode = node,
                 ensName = l @ ''.yourdomain.eth'', strategy = st,
                 createdAt = block_timestamp m, exists = True \<rparr>"
  using assms
  by (simp add: createAgent_def getAgent_def Let_def bindE_def checked_add_def)

theorem create_then_get_witness:
  "isValidStrategy demo_strategy
   \<and> \<not> exists (agents (registry demo_chain) 2)
   \<and> (\<exists>node s'. createAgent demo_env (msg_at 11 5000) 2 ''bot2'' demo_strategy demo_chain
                    = Inr (node, s')
         \<and> getAgent 2 s' = Inr \<lparr> owner = 11, ensNode = node,
               ensName = ''bot2.yourdomain.eth'', strategy = demo_strategy,
               createdAt = 5000, exists = True \<rparr>)"
proof -
  have v: "isValidStrategy demo_strategy"
    by (simp add: isValidStrategy_def demo_strategy_def)
  have f: "\<not> exists (agents (registry demo_chain) 2)"
    by (simp add: demo_chain_def no_agent_def)
  have e: "ens_setSubnodeRecord demo_env (baseNode demo_env)
             (keccak256 demo_env (encode_string ''bot2'')) (msg_sender (msg_at 11 5000)) 0 0
             (ext demo_chain) = Some ()"
    by (simp add: demo_env_def)
  have r: "unat (agentCount (registry demo_chain)) + 1 < 2 ^ 256"
    by (simp add: demo_chain_def)
  from create_then_get [OF v f e r] v f show ?thesis
    by (simp add: msg_at_sel)
qed

section \<open>Deactivation\<close>

text \<open>
  C5, as stated, fails: there is a way back. After the owner deactivates the fixture agent
  and then calls \<open>updateStrategy\<close> with a strategy whose \<open>isActive\<close> is \<open>true\<close>, a later
  \<open>checkAndExecuteTrigger\<close> does not fail.
\<close>

theorem deactivated_stays_inactive_counterexample:
  "\<not> isActive (strategy (agents (registry
        (step demo_env (msg_at 10 5000) (DeactivateAgent 1) demo_chain)) 1))
   \<and> \<not> isl (checkAndExecuteTrigger demo_env (msg_at 11 9000) 1 []
        (run demo_env
           [(msg_at 10 5000, DeactivateAgent 1),
            (msg_at 10 5001, UpdateStrategy 1 demo_strategy)] demo_chain))"
  by (simp add: step_def deactivateAgent_def updateStrategy_def checkAndExecuteTrigger_def
      Let_def isValidStrategy_def checked_add_def bindE_def triggerMet_def convertPrice_demo
      demo_price_fresh demo_env_def demo_strategy_def demo_agent_def demo_chain_def msg_at_sel)

text \<open>
  C5, amended. After a successful \<open>deactivateAgent\<close>, and after any further transactions
  among which no \<open>updateStrategy\<close> for that agent supplies \<open>isActive = true\<close>,
  \<open>checkAndExecuteTrigger\<close> for that agent fails with "Strategy not active", whatever the
  oracle, the caller, the time and the update data.
\<close>

theorem deactivated_stays_inactive:
  assumes dea: "deactivateAgent m0 a s0 = Inr s1"
    and noreact: "\<forall>(m', c) \<in> set cs. \<forall>st. c = UpdateStrategy a st \<longrightarrow> \<not> isActive st"
  shows "checkAndExecuteTrigger env m a ud (run env cs s1) = Inl (Revert ''Strategy not active'')"
proof -
  from deactivateAgent_registry [OF dea]
  have "exists (agents (registry s1) a)" and "\<not> isActive (strategy (agents (registry s1) a))"
    by simp_all
  from run_keeps_inactive [OF this noreact, of env]
  show ?thesis by (simp add: checkAndExecuteTrigger_inactive)
qed

theorem deactivated_stays_inactive_witness:
  "deactivateAgent (msg_at 10 5000) 1 demo_chain
     = Inr (step demo_env (msg_at 10 5000) (DeactivateAgent 1) demo_chain)
   \<and> checkAndExecuteTrigger demo_env (msg_at 11 9000) 1 []
        (run demo_env
           [(msg_at 10 5001, UpdateStrategy 1 (demo_strategy\<lparr> isActive := False \<rparr>)),
            (msg_at 11 5002, CheckAndExecuteTrigger 1 []),
            (msg_at 11 5003, CreateAgent 2 ''bot2'' demo_strategy)]
           (step demo_env (msg_at 10 5000) (DeactivateAgent 1) demo_chain))
     = Inl (Revert ''Strategy not active'')"
proof -
  have d: "deactivateAgent (msg_at 10 5000) 1 demo_chain
      = Inr (step demo_env (msg_at 10 5000) (DeactivateAgent 1) demo_chain)"
    by (simp add: step_def deactivateAgent_def Let_def demo_chain_def demo_agent_def msg_at_sel)
  have n: "\<forall>(m', c) \<in> set
        [(msg_at 10 5001, UpdateStrategy 1 (demo_strategy\<lparr> isActive := False \<rparr>)),
         (msg_at 11 5002, CheckAndExecuteTrigger 1 []),
         (msg_at 11 5003, CreateAgent 2 ''bot2'' demo_strategy)].
       \<forall>st. c = UpdateStrategy 1 st \<longrightarrow> \<not> isActive st"
    by simp
  from deactivated_stays_inactive [OF d n, of demo_env "msg_at 11 9000" "[]"] d
  show ?thesis by (simp only: simp_thms)
qed

section \<open>The trigger query\<close>

text \<open>
  C6. \<open>checkTrigger\<close> returns the same result whatever \<open>isActive\<close>, \<open>lastExecuted\<close> and
  \<open>cooldownPeriod\<close> of the agent's strategy are, and for an existing agent that result is
  the oracle's reading, converted and compared with the trigger price, and nothing else.
  It is a view function: it returns a value and no state. The witness is a deactivated
  agent for which it reports that the trigger is met.
\<close>

theorem checkTrigger_ignores_gates:
  "checkTrigger env m a
     (s\<lparr> registry := (registry s)\<lparr> agents := (agents (registry s))
          (a := (agents (registry s) a)\<lparr> strategy := (strategy (agents (registry s) a))
             \<lparr> isActive := b, lastExecuted := t, cooldownPeriod := c \<rparr> \<rparr>) \<rparr> \<rparr>)
     = checkTrigger env m a s
   \<and> (exists (agents (registry s) a) \<longrightarrow>
        checkTrigger env m a s =
          (case pyth_getPrice env (priceFeedId (strategy (agents (registry s) a)))
                  (block_timestamp m) (ext s) of
             None \<Rightarrow> Inl CalleeReverted
           | Some p \<Rightarrow>
               (case convertPrice p of
                  Inl e \<Rightarrow> Inl e
                | Inr v \<Rightarrow> Inr (triggerMet (strategy (agents (registry s) a)) v, v))))"
  by (simp add: checkTrigger_def Let_def triggerMet_def bindE_def split: option.splits sum.splits)

theorem checkTrigger_ignores_gates_witness:
  "exists (agents (registry (step demo_env (msg_at 10 5000) (DeactivateAgent 1) demo_chain)) 1)
   \<and> \<not> isActive (strategy (agents (registry
          (step demo_env (msg_at 10 5000) (DeactivateAgent 1) demo_chain)) 1))
   \<and> checkTrigger demo_env (msg_at 11 6000) 1
        (step demo_env (msg_at 10 5000) (DeactivateAgent 1) demo_chain)
       = Inr (True, 300000000001)"
proof -
  let ?s = "step demo_env (msg_at 10 5000) (DeactivateAgent 1) demo_chain"
  have e: "exists (agents (registry ?s) 1)"
    by (simp add: step_def deactivateAgent_def Let_def demo_chain_def demo_agent_def msg_at_sel)
  have off: "\<not> isActive (strategy (agents (registry ?s) 1))"
    by (simp add: step_def deactivateAgent_def Let_def demo_chain_def demo_agent_def msg_at_sel)
  have tp: "triggerMet (strategy (agents (registry ?s) 1)) 300000000001"
    by (simp add: step_def deactivateAgent_def Let_def demo_chain_def demo_agent_def msg_at_sel
        triggerMet_def demo_strategy_def)
  from checkTrigger_ignores_gates
    [where env = demo_env and m = "msg_at 11 6000" and a = 1 and s = ?s
       and b = True and t = 0 and c = 0] e
  have "checkTrigger demo_env (msg_at 11 6000) 1 ?s =
      (case pyth_getPrice demo_env (priceFeedId (strategy (agents (registry ?s) 1)))
              (block_timestamp (msg_at 11 6000)) (ext ?s) of
         None \<Rightarrow> Inl CalleeReverted
       | Some p \<Rightarrow>
           (case convertPrice p of
              Inl e \<Rightarrow> Inl e
            | Inr v \<Rightarrow> Inr (triggerMet (strategy (agents (registry ?s) 1)) v, v)))"
    by blast
  also have "pyth_getPrice demo_env = (\<lambda>feed t x. Some demo_price)"
    by (simp add: demo_env_def)
  finally have "checkTrigger demo_env (msg_at 11 6000) 1 ?s = Inr (True, 300000000001)"
    by (simp add: convertPrice_demo tp)
  with e off show ?thesis by simp
qed

section \<open>Cooldown\<close>

text \<open>
  C7. For an existing, active agent and an oracle that delivers a reading with a non-zero
  publish time, \<open>checkAndExecuteTrigger\<close> succeeds exactly when the block timestamp is at
  least \<open>lastExecuted + cooldownPeriod\<close> (as numbers) and the converted price meets the
  trigger. With a cooldown of \<open>3600\<close> and \<open>lastExecuted = T\<close>, where \<open>T + 3600\<close> is a
  timestamp (it fits 256 bits): at time \<open>T + 3599\<close> the call fails with
  \<open>CooldownNotExpired\<close>; at time \<open>T + 3600\<close>, the trigger met, it succeeds and
  \<open>lastExecuted\<close> becomes \<open>T + 3600\<close>.
\<close>

theorem cooldown_boundary:
  assumes st: "st = strategy (agents (registry s) a)"
    and ex: "exists (agents (registry s) a)"
    and act: "isActive st"
    and upd: "(if 0 < length ud
               then pyth_updatePriceFeeds env ud (msg_value m) (block_timestamp m) (ext s)
               else Some (ext s)) = Some x'"
    and rd: "pyth_getPriceNoOlderThan env (priceFeedId st) 300 (block_timestamp m) x' = Some p"
    and fresh: "publishTime p \<noteq> 0"
  shows "((\<exists>s'. checkAndExecuteTrigger env m a ud s = Inr s') \<longleftrightarrow>
            unat (lastExecuted st) + unat (cooldownPeriod st) \<le> unat (block_timestamp m)
            \<and> (\<exists>v. convertPrice p = Inr v \<and> triggerMet st v))
       \<and> (cooldownPeriod st = 3600 \<and> unat (lastExecuted st) + 3600 < 2 ^ 256
            \<and> block_timestamp m = lastExecuted st + 3599 \<longrightarrow>
          checkAndExecuteTrigger env m a ud s = Inl CooldownNotExpired)
       \<and> (cooldownPeriod st = 3600 \<and> unat (lastExecuted st) + 3600 < 2 ^ 256
            \<and> block_timestamp m = lastExecuted st + 3600
            \<and> (\<exists>v. convertPrice p = Inr v \<and> triggerMet st v) \<longrightarrow>
          (\<exists>s'. checkAndExecuteTrigger env m a ud s = Inr s'
                \<and> lastExecuted (strategy (agents (registry s') a)) = lastExecuted st + 3600))"
proof -
  note run = checkAndExecuteTrigger_gates
    [OF ex act [unfolded st] upd rd [unfolded st] fresh, folded st]
  have bound: "unat (block_timestamp m) < 2 ^ 256"
    using unsigned_less [of "block_timestamp m", where 'a = nat] by simp
  have general: "(\<exists>s'. checkAndExecuteTrigger env m a ud s = Inr s') \<longleftrightarrow>
      unat (lastExecuted st) + unat (cooldownPeriod st) \<le> unat (block_timestamp m)
      \<and> (\<exists>v. convertPrice p = Inr v \<and> triggerMet st v)"
  proof (cases "unat (lastExecuted st) + unat (cooldownPeriod st) < 2 ^ 256")
    case True
    then have sum: "unat (lastExecuted st + cooldownPeriod st)
        = unat (lastExecuted st) + unat (cooldownPeriod st)"
      by (rule unat_checked_sum)
    show ?thesis
      using True
      by (cases "convertPrice p")
        (auto simp add: run checked_add_def bindE_def word_less_unat sum)
  next
    case False
    then show ?thesis
      using bound by (simp add: run checked_add_def bindE_def)
  qed
  have early: "checkAndExecuteTrigger env m a ud s = Inl CooldownNotExpired"
    if c: "cooldownPeriod st = 3600" and fit: "unat (lastExecuted st) + 3600 < 2 ^ 256"
      and now: "block_timestamp m = lastExecuted st + 3599"
  proof -
    have a: "unat (lastExecuted st + 3600) = unat (lastExecuted st) + 3600"
      using fit unat_checked_sum [of "lastExecuted st" 3600] by simp
    have b: "unat (lastExecuted st + 3599) = unat (lastExecuted st) + 3599"
      using fit unat_checked_sum [of "lastExecuted st" 3599] by simp
    show ?thesis
      using fit by (simp add: run c now checked_add_def bindE_def word_less_unat a b)
  qed
  have due: "\<exists>s'. checkAndExecuteTrigger env m a ud s = Inr s'
        \<and> lastExecuted (strategy (agents (registry s') a)) = lastExecuted st + 3600"
    if c: "cooldownPeriod st = 3600" and fit: "unat (lastExecuted st) + 3600 < 2 ^ 256"
      and now: "block_timestamp m = lastExecuted st + 3600"
      and met: "\<exists>v. convertPrice p = Inr v \<and> triggerMet st v"
  proof -
    from met obtain v where v: "convertPrice p = Inr v" "triggerMet st v" by blast
    show ?thesis
      using fit v by (simp add: run c now checked_add_def bindE_def)
  qed
  from general early due show ?thesis by blast
qed

theorem cooldown_boundary_witness:
  "checkAndExecuteTrigger demo_env (msg_at 11 4599) 1 [] demo_chain = Inl CooldownNotExpired
   \<and> (\<exists>s'. checkAndExecuteTrigger demo_env (msg_at 11 4600) 1 [] demo_chain = Inr s'
         \<and> lastExecuted (strategy (agents (registry s') 1)) = 4600)"
proof -
  have st: "demo_strategy = strategy (agents (registry demo_chain) 1)"
    by (simp add: demo_agent_1 demo_agent_def)
  have ex: "exists (agents (registry demo_chain) 1)"
    by (simp add: demo_agent_1 demo_agent_def)
  have act: "isActive demo_strategy"
    by (simp add: demo_strategy_def)
  have upd: "(if 0 < length ([] :: bytes list)
              then pyth_updatePriceFeeds demo_env [] (msg_value (msg_at 11 t))
                     (block_timestamp (msg_at 11 t)) (ext demo_chain)
              else Some (ext demo_chain)) = Some ()" for t
    by simp
  have rd: "pyth_getPriceNoOlderThan demo_env (priceFeedId demo_strategy) 300
              (block_timestamp (msg_at 11 t)) () = Some demo_price" for t
    by (simp add: demo_env_def)
  have fresh: "publishTime demo_price \<noteq> 0"
    by (simp add: demo_price_fresh)
  have met: "\<exists>v. convertPrice demo_price = Inr v \<and> triggerMet demo_strategy v"
    by (simp add: convertPrice_demo triggerMet_def demo_strategy_def)
  have c: "cooldownPeriod demo_strategy = 3600" and l: "lastExecuted demo_strategy = 1000"
    by (simp_all add: demo_strategy_def)
  from cooldown_boundary [OF st ex act upd rd fresh, of 4599]
  have early: "checkAndExecuteTrigger demo_env (msg_at 11 4599) 1 [] demo_chain
      = Inl CooldownNotExpired"
    by (simp add: c l msg_at_sel)
  from cooldown_boundary [OF st ex act upd rd fresh, of 4600] met
  have "\<exists>s'. checkAndExecuteTrigger demo_env (msg_at 11 4600) 1 [] demo_chain = Inr s'
         \<and> lastExecuted (strategy (agents (registry s') 1)) = 4600"
    by (simp add: c l msg_at_sel)
  with early show ?thesis by simp
qed

section \<open>Authorization and identity\<close>

text \<open>
  C8. For an existing agent and a caller who is not its owner, \<open>updateStrategy\<close> and
  \<open>deactivateAgent\<close> fail with \<open>Unauthorized\<close>, and the transaction leaves the whole state
  as it was.
\<close>

theorem non_owner_rejected:
  assumes "exists (agents (registry s) a)"
    and "msg_sender m \<noteq> owner (agents (registry s) a)"
  shows "updateStrategy m a st s = Inl Unauthorized
       \<and> deactivateAgent m a s = Inl Unauthorized
       \<and> step env m (UpdateStrategy a st) s = s
       \<and> step env m (DeactivateAgent a) s = s"
  using assms by (auto simp add: updateStrategy_def deactivateAgent_def step_def Let_def)

theorem non_owner_rejected_witness:
  "exists (agents (registry demo_chain) 1)
   \<and> msg_sender (msg_at 11 2000) \<noteq> owner (agents (registry demo_chain) 1)
   \<and> updateStrategy (msg_at 11 2000) 1 demo_strategy demo_chain = Inl Unauthorized
   \<and> deactivateAgent (msg_at 11 2000) 1 demo_chain = Inl Unauthorized
   \<and> step demo_env (msg_at 11 2000) (UpdateStrategy 1 demo_strategy) demo_chain = demo_chain
   \<and> step demo_env (msg_at 11 2000) (DeactivateAgent 1) demo_chain = demo_chain"
proof -
  have e: "exists (agents (registry demo_chain) 1)"
    by (simp add: demo_defs)
  have o: "msg_sender (msg_at 11 2000) \<noteq> owner (agents (registry demo_chain) 1)"
    by (simp add: demo_defs)
  show ?thesis
    using e o non_owner_rejected [OF e o, of demo_strategy demo_env] by (simp only: simp_thms)
qed

text \<open>
  C9. \<open>createAgent\<close> with an agent id that is already present fails with the revert reason
  "Agent already exists" (the store's \<open>AlreadyExists\<close>), and the transaction leaves the whole
  state as it was: the existing record, the owner index and the agent count.
\<close>

theorem create_existing_rejected:
  assumes "exists (agents (registry s) a)"
  shows "createAgent env m a l st s = Inl (Revert ''Agent already exists'')
       \<and> step env m (CreateAgent a l st) s = s"
  using assms by (simp add: createAgent_def step_def Let_def)

theorem create_existing_rejected_witness:
  "exists (agents (registry demo_chain) 1)
   \<and> createAgent demo_env (msg_at 11 2000) 1 ''bot'' demo_strategy demo_chain
       = Inl (Revert ''Agent already exists'')
   \<and> step demo_env (msg_at 11 2000) (CreateAgent 1 ''bot'' demo_strategy) demo_chain = demo_chain"
proof -
  have e: "exists (agents (registry demo_chain) 1)"
    by (simp add: demo_defs)
  show ?thesis
    using e create_existing_rejected [OF e, of demo_env "msg_at 11 2000" "''bot''" demo_strategy]
    by (simp only: simp_thms)
qed

section \<open>Frame of an execution\<close>

text \<open>
  C10. A successful \<open>checkAndExecuteTrigger\<close> changes one stored field of the registry,
  the agent's \<open>strategy.lastExecuted\<close>, which becomes the block timestamp. The agent's
  owner, ENS node, ENS name, creation time and existence flag, the other fields of its
  strategy, the agent count, the owner index, the ENS node index and every other agent's
  record are as before.
\<close>

theorem execute_frame:
  assumes "checkAndExecuteTrigger env m a ud s = Inr s'"
  shows "strategy (agents (registry s') a)
           = (strategy (agents (registry s) a))\<lparr> lastExecuted := block_timestamp m \<rparr>
       \<and> owner (agents (registry s') a) = owner (agents (registry s) a)
       \<and> ensNode (agents (registry s') a) = ensNode (agents (registry s) a)
       \<and> ensName (agents (registry s') a) = ensName (agents (registry s) a)
       \<and> createdAt (agents (registry s') a) = createdAt (agents (registry s) a)
       \<and> exists (agents (registry s') a) = exists (agents (registry s) a)
       \<and> agentCount (registry s') = agentCount (registry s)
       \<and> userAgents (registry s') = userAgents (registry s)
       \<and> ensNodeToAgentId (registry s') = ensNodeToAgentId (registry s)
       \<and> (\<forall>b. b \<noteq> a \<longrightarrow> agents (registry s') b = agents (registry s) b)"
  by (simp add: checkAndExecuteTrigger_registry [OF assms])

theorem execute_frame_witness:
  "\<exists>s'. checkAndExecuteTrigger demo_env (msg_at 11 4600) 1 [] demo_chain = Inr s'
     \<and> strategy (agents (registry s') 1) = demo_strategy\<lparr> lastExecuted := 4600 \<rparr>
     \<and> owner (agents (registry s') 1) = 10
     \<and> createdAt (agents (registry s') 1) = 900
     \<and> agentCount (registry s') = 1
     \<and> userAgents (registry s') 10 = [1]
     \<and> agents (registry s') 2 = no_agent"
proof -
  from demo_execute obtain s'
    where r: "checkAndExecuteTrigger demo_env (msg_at 11 4600) 1 [] demo_chain = Inr s'" ..
  from execute_frame [OF r]
  have "strategy (agents (registry s') 1) = demo_strategy\<lparr> lastExecuted := 4600 \<rparr>
     \<and> owner (agents (registry s') 1) = 10
     \<and> createdAt (agents (registry s') 1) = 900
     \<and> agentCount (registry s') = 1
     \<and> userAgents (registry s') 10 = [1]
     \<and> agents (registry s') 2 = no_agent"
    by (simp add: demo_chain_def demo_agent_def msg_at_sel)
  with r show ?thesis by blast
qed

end
